theory Spec2Isabelle
  imports Main "HOL-Library.Word"
begin

section \<open>Shared memory manager of the inference server (src/core/shared_memory_manager.cc)\<close>

text \<open>
  The manager keeps a table from region names to region records and talks to the operating
  system (shm_open, mmap, munmap, close) and to the CUDA runtime. The model threads the
  manager through every member function and returns it updated. Everything the manager
  calls outside itself is logged in \<open>os_calls\<close>, and the answer of the outside world is
  read from an environment \<open>env\<close>, which may depend on all calls made before.
  Field names of the source end in an underscore (\<open>shm_key_\<close>); the model drops it.
\<close>

subsection \<open>Status values\<close>

text \<open>
  Modelled from the spec: the Status class and the RETURN_IF_ERROR macro are declared in
  src/core/status.h, which is not among the sources. Section 7 of the spec describes the
  result as a kind (ALREADY_EXISTS, INVALID_ARGUMENT, INTERNAL) with a message; the source
  builds it as \<open>Status(code, message)\<close>, tests it with \<open>IsOk()\<close> and returns it unchanged
  from RETURN_IF_ERROR, which is written out as a branch wherever the source uses it.
\<close>

datatype RequestStatusCode = SUCCESS | INTERNAL | INVALID_ARG | ALREADY_EXISTS

datatype Status = Status RequestStatusCode string

definition Success :: Status where
  "Success = Status SUCCESS []"

fun IsOk :: "Status \<Rightarrow> bool" where
  "IsOk (Status c msg) = (c = SUCCESS)"

fun Code :: "Status \<Rightarrow> RequestStatusCode" where
  "Code (Status c msg) = c"

definition apostrophe :: string where
  "apostrophe = [CHR 0x27]"

subsection \<open>Region records and the manager\<close>

type_synonym size_t = "64 word"
type_synonym addr = "64 word"
type_synonym cudaIpcMemHandle_t = "8 word list"
type_synonym cudaError_t = nat

datatype MemoryType = MEMORY_CPU | MEMORY_GPU

text \<open>
  Modelled from the spec: SharedMemoryInfo is declared in src/core/shared_memory_manager.h,
  which is not among the sources. The fields are those of the Region Record of section 3 of
  the spec, in the order of the constructor calls at lines 165 and 203 of the source.
  Sizes and addresses are 64 bits wide.
\<close>

record SharedMemoryInfo =
  name :: string
  shm_key :: string
  offset :: size_t
  byte_size :: size_t
  shm_fd :: int
  mapped_addr :: addr
  kind :: MemoryType
  device_id :: int

datatype os_call =
    Shm_open string
  | Mmap size_t int size_t
  | Munmap addr size_t
  | Close int
  | CudaSetDevice int
  | CudaIpcOpenMemHandle cudaIpcMemHandle_t
  | CudaIpcCloseMemHandle addr

datatype mu_event = Mu_lock | Mu_unlock

text \<open>
  Modelled from the spec: the type of \<open>shared_memory_map_\<close> is declared in
  src/core/shared_memory_manager.h, which is not among the sources. The spec calls it the
  Region Table, the mapping from region name to Region Record; the source uses it with
  \<open>find\<close>, \<open>insert\<close>, \<open>erase\<close> and iteration. The model is the sequence of entries in the
  order in which an iterator visits them. A new entry is appended; every statement below
  is about an arbitrary table, so none depends on the place of a new entry.

  \<open>os_calls\<close> is the log of the calls made to the operating system and the CUDA runtime,
  \<open>register_mu\<close> the log of the lock and unlock events of the mutex \<open>register_mu_\<close>.
\<close>

type_synonym SharedMemoryStateMap = "(string \<times> SharedMemoryInfo) list"

record SharedMemoryManager =
  shared_memory_map :: SharedMemoryStateMap
  os_calls :: "os_call list"
  register_mu :: "mu_event list"

text \<open>
  The outside world. \<open>os_shm_open\<close> is the descriptor shm_open returns (\<open>-1\<close> on failure),
  \<open>os_mmap\<close> the address mmap returns for (length, descriptor, offset) (\<open>MAP_FAILED\<close> on
  failure), \<open>os_munmap\<close> and \<open>os_close\<close> the return values of munmap and close (\<open>-1\<close> on
  failure). \<open>enable_gpu\<close> is the build switch \<open>TRTIS_ENABLE_GPU\<close>.
\<close>

record os_env =
  enable_gpu :: bool
  os_shm_open :: "os_call list \<Rightarrow> string \<Rightarrow> int"
  os_mmap :: "os_call list \<Rightarrow> size_t \<Rightarrow> int \<Rightarrow> size_t \<Rightarrow> addr"
  os_munmap :: "os_call list \<Rightarrow> addr \<Rightarrow> size_t \<Rightarrow> int"
  os_close :: "os_call list \<Rightarrow> int \<Rightarrow> int"
  cuda_open :: "os_call list \<Rightarrow> cudaIpcMemHandle_t \<Rightarrow> cudaError_t \<times> addr"
  cuda_close :: "os_call list \<Rightarrow> addr \<Rightarrow> cudaError_t"
  cudaGetErrorString :: "cudaError_t \<Rightarrow> string"

definition MAP_FAILED :: addr where
  "MAP_FAILED = - 1"

definition cudaSuccess :: cudaError_t where
  "cudaSuccess = 0"

subsection \<open>The primitives of the anonymous namespace\<close>

definition OpenSharedMemoryRegion ::
  "os_env \<Rightarrow> string \<Rightarrow> os_call list \<Rightarrow> Status \<times> int \<times> os_call list" where
  "OpenSharedMemoryRegion env key calls =
     (let fd = os_shm_open env calls key;
          calls' = calls @ [Shm_open key]
      in if fd = - 1
         then (Status INTERNAL
                 (''Unable to open shared memory region: '' @ apostrophe @ key @ apostrophe),
               fd, calls')
         else (Success, fd, calls'))"

definition MapSharedMemory ::
  "os_env \<Rightarrow> int \<Rightarrow> size_t \<Rightarrow> size_t \<Rightarrow> os_call list \<Rightarrow> Status \<times> addr \<times> os_call list" where
  "MapSharedMemory env fd off sz calls =
     (let a = os_mmap env calls sz fd off;
          calls' = calls @ [Mmap sz fd off]
      in if a = MAP_FAILED
         then (Status INTERNAL ''Unable to process address space'', a, calls')
         else (Success, a, calls'))"

definition CloseSharedMemoryRegion ::
  "os_env \<Rightarrow> int \<Rightarrow> os_call list \<Rightarrow> Status \<times> os_call list" where
  "CloseSharedMemoryRegion env fd calls =
     (let tmp = os_close env calls fd;
          calls' = calls @ [Close fd]
      in if tmp = - 1
         then (Status INTERNAL ''Unable to close shared memory region'', calls')
         else (Success, calls'))"

definition UnmapSharedMemory ::
  "os_env \<Rightarrow> addr \<Rightarrow> size_t \<Rightarrow> os_call list \<Rightarrow> Status \<times> os_call list" where
  "UnmapSharedMemory env a sz calls =
     (let tmp_fd = os_munmap env calls a sz;
          calls' = calls @ [Munmap a sz]
      in if tmp_fd = - 1
         then (Status INTERNAL ''Unable to munmap shared memory region'', calls')
         else (Success, calls'))"

definition OpenCudaIPCRegion ::
  "os_env \<Rightarrow> cudaIpcMemHandle_t \<Rightarrow> int \<Rightarrow> os_call list \<Rightarrow> Status \<times> addr \<times> os_call list" where
  "OpenCudaIPCRegion env h dev calls =
     (let calls1 = calls @ [CudaSetDevice dev];
          (err, p) = cuda_open env calls1 h;
          calls' = calls1 @ [CudaIpcOpenMemHandle h]
      in if err \<noteq> cudaSuccess
         then (Status INTERNAL
                 (''failed to open CUDA IPC handle: '' @ cudaGetErrorString env err),
               p, calls')
         else (Success, p, calls'))"

subsection \<open>Table operations and the two scans\<close>

definition erase :: "string \<Rightarrow> SharedMemoryStateMap \<Rightarrow> SharedMemoryStateMap" where
  "erase n tbl = filter (\<lambda>e. fst e \<noteq> n) tbl"

definition insert_region ::
  "string \<Rightarrow> SharedMemoryInfo \<Rightarrow> SharedMemoryStateMap \<Rightarrow> SharedMemoryStateMap" where
  "insert_region n r tbl = (if map_of tbl n = None then tbl @ [(n, r)] else tbl)"

text \<open>Lines 142 to 151: the descriptor of the first entry with the key, \<open>-1\<close> when there is none.\<close>

fun find_shm_fd :: "SharedMemoryStateMap \<Rightarrow> string \<Rightarrow> int" where
  "find_shm_fd [] key = - 1"
| "find_shm_fd (e # rest) key =
     (if shm_key (snd e) = key then shm_fd (snd e) else find_shm_fd rest key)"

text \<open>Lines 220 to 227: the scan runs over the whole table, the entry being removed included.\<close>

fun last_one_scan :: "SharedMemoryStateMap \<Rightarrow> string \<Rightarrow> bool" where
  "last_one_scan [] key = True"
| "last_one_scan (e # rest) key =
     (if shm_key (snd e) = key then False else last_one_scan rest key)"

text \<open>The guard object: the mutex is locked on entry and unlocked on every return.\<close>

definition lock_guard ::
  "(SharedMemoryManager \<Rightarrow> 'a \<times> SharedMemoryManager) \<Rightarrow> SharedMemoryManager
     \<Rightarrow> 'a \<times> SharedMemoryManager" where
  "lock_guard body m =
     (case body (m\<lparr>register_mu := register_mu m @ [Mu_lock]\<rparr>) of
        (res, m') \<Rightarrow> (res, m'\<lparr>register_mu := register_mu m' @ [Mu_unlock]\<rparr>))"

subsection \<open>Registration\<close>

text \<open>Lines 142 to 156: reuse the descriptor found by the scan, open one when the scan gave \<open>-1\<close>.\<close>

definition acquire_fd ::
  "os_env \<Rightarrow> string \<Rightarrow> SharedMemoryManager \<Rightarrow> Status \<times> int \<times> os_call list" where
  "acquire_fd env key m =
     (let fd = find_shm_fd (shared_memory_map m) key
      in if fd = - 1 then OpenSharedMemoryRegion env key (os_calls m)
         else (Success, fd, os_calls m))"

definition already_registered :: "string \<Rightarrow> Status" where
  "already_registered n =
     Status ALREADY_EXISTS
       (''shared memory region '' @ apostrophe @ n @ apostrophe @ '' is already registered'')"

definition failed_to_register :: "string \<Rightarrow> Status" where
  "failed_to_register n =
     Status INVALID_ARG
       (''failed to register shared memory region '' @ apostrophe @ n @ apostrophe)"

definition RegisterSharedMemory ::
  "os_env \<Rightarrow> string \<Rightarrow> string \<Rightarrow> size_t \<Rightarrow> size_t \<Rightarrow> SharedMemoryManager
     \<Rightarrow> Status \<times> SharedMemoryManager" where
  "RegisterSharedMemory env n key off sz =
     lock_guard (\<lambda>m.
       if map_of (shared_memory_map m) n \<noteq> None then (already_registered n, m)
       else
         (case acquire_fd env key m of (st, fd, calls1) \<Rightarrow>
            if \<not> IsOk st then (st, m\<lparr>os_calls := calls1\<rparr>)
            else
              (case MapSharedMemory env fd off sz calls1 of (status, a, calls2) \<Rightarrow>
                 if \<not> IsOk status then (failed_to_register n, m\<lparr>os_calls := calls2\<rparr>)
                 else
                   (Success,
                    m\<lparr>os_calls := calls2,
                      shared_memory_map :=
                        insert_region n
                          \<lparr>name = n, shm_key = key, offset = off, byte_size = sz,
                           shm_fd = fd, mapped_addr = a, kind = MEMORY_CPU, device_id = 0\<rparr>
                          (shared_memory_map m)\<rparr>))))"

text \<open>Compiled only when \<open>TRTIS_ENABLE_GPU\<close> is defined.\<close>

definition RegisterCudaSharedMemory ::
  "os_env \<Rightarrow> string \<Rightarrow> cudaIpcMemHandle_t \<Rightarrow> size_t \<Rightarrow> int \<Rightarrow> SharedMemoryManager
     \<Rightarrow> Status \<times> SharedMemoryManager" where
  "RegisterCudaSharedMemory env n h sz dev =
     lock_guard (\<lambda>m.
       if map_of (shared_memory_map m) n \<noteq> None then (already_registered n, m)
       else
         (case OpenCudaIPCRegion env h dev (os_calls m) of (status, a, calls1) \<Rightarrow>
            if \<not> IsOk status then (failed_to_register n, m\<lparr>os_calls := calls1\<rparr>)
            else
              (Success,
               m\<lparr>os_calls := calls1,
                 shared_memory_map :=
                   insert_region n
                     \<lparr>name = n, shm_key = [], offset = 0, byte_size = sz,
                      shm_fd = - 1, mapped_addr = a, kind = MEMORY_GPU, device_id = dev\<rparr>
                     (shared_memory_map m)\<rparr>)))"

subsection \<open>Unregistration\<close>

text \<open>
  Lines 228 to 230 and 248 to 252 of the CPU branch, given the outcome of the scan: the
  descriptor is closed when \<open>last_one\<close> is set, a failure of the close returns before the
  entry is erased.
\<close>

definition close_and_erase ::
  "os_env \<Rightarrow> bool \<Rightarrow> string \<Rightarrow> SharedMemoryInfo \<Rightarrow> SharedMemoryManager
     \<Rightarrow> Status \<times> SharedMemoryManager" where
  "close_and_erase env last_one n r m =
     (if last_one then
        (case CloseSharedMemoryRegion env (shm_fd r) (os_calls m) of (st, calls1) \<Rightarrow>
           if \<not> IsOk st then (st, m\<lparr>os_calls := calls1\<rparr>)
           else (Success,
                 m\<lparr>os_calls := calls1,
                   shared_memory_map := erase n (shared_memory_map m)\<rparr>))
      else (Success, m\<lparr>shared_memory_map := erase n (shared_memory_map m)\<rparr>))"

definition gpus_not_supported :: "string \<Rightarrow> Status" where
  "gpus_not_supported n =
     Status INVALID_ARG
       (''failed to unregister CUDA shared memory region: '' @ apostrophe @ n @ apostrophe
          @ '', GPUs not supported'')"

definition UnregisterSharedMemoryHelper ::
  "os_env \<Rightarrow> string \<Rightarrow> SharedMemoryManager \<Rightarrow> Status \<times> SharedMemoryManager" where
  "UnregisterSharedMemoryHelper env n m =
     (case map_of (shared_memory_map m) n of
        None \<Rightarrow> (Success, m)
      | Some r \<Rightarrow>
          if kind r = MEMORY_CPU then
            (case UnmapSharedMemory env (mapped_addr r) (byte_size r) (os_calls m) of
               (st, calls1) \<Rightarrow>
                 if \<not> IsOk st then (st, m\<lparr>os_calls := calls1\<rparr>)
                 else close_and_erase env
                        (last_one_scan (shared_memory_map m) (shm_key r)) n r
                        (m\<lparr>os_calls := calls1\<rparr>))
          else if enable_gpu env then
            (let err = cuda_close env (os_calls m) (mapped_addr r);
                 m1 = m\<lparr>os_calls := os_calls m @ [CudaIpcCloseMemHandle (mapped_addr r)]\<rparr>
             in if err \<noteq> cudaSuccess
                then (Status INTERNAL
                        (''failed to close CUDA IPC handle: '' @ cudaGetErrorString env err),
                      m1)
                else (Success, m1\<lparr>shared_memory_map := erase n (shared_memory_map m1)\<rparr>))
          else (gpus_not_supported n, m))"

definition UnregisterSharedMemory ::
  "os_env \<Rightarrow> string \<Rightarrow> SharedMemoryManager \<Rightarrow> Status \<times> SharedMemoryManager" where
  "UnregisterSharedMemory env n = lock_guard (UnregisterSharedMemoryHelper env n)"

text \<open>
  Lines 273 to 278. The range-based loop walks the table itself while the helper erases
  from it. Erasing an entry invalidates the iterator that points at it, and the loop then
  increments that iterator: from there on the language gives the program no meaning. The
  model returns \<open>None\<close> at that point. While no entry is erased the table is the one the
  loop started on, so the loop visits the names it started with.
\<close>

fun unregister_all_loop ::
  "os_env \<Rightarrow> string list \<Rightarrow> string list \<Rightarrow> SharedMemoryManager
     \<Rightarrow> (string list \<times> SharedMemoryManager) option" where
  "unregister_all_loop env [] unregister_fails m = Some (unregister_fails, m)"
| "unregister_all_loop env (n # rest) unregister_fails m =
     (case UnregisterSharedMemoryHelper env n m of (unregister_status, m') \<Rightarrow>
        if map_of (shared_memory_map m') n = None then None
        else unregister_all_loop env rest
               (if \<not> IsOk unregister_status then unregister_fails @ [n]
                else unregister_fails) m')"

definition error_message :: "string list \<Rightarrow> string" where
  "error_message unregister_fails =
     foldl (\<lambda>msg unreg_fail. msg @ unreg_fail @ '' ,'')
       ''Failed to unregister the following shared memory regions: '' unregister_fails"

definition UnregisterAllSharedMemory ::
  "os_env \<Rightarrow> SharedMemoryManager \<Rightarrow> (Status \<times> SharedMemoryManager) option" where
  "UnregisterAllSharedMemory env m =
     (case unregister_all_loop env (map fst (shared_memory_map m)) []
             (m\<lparr>register_mu := register_mu m @ [Mu_lock]\<rparr>) of
        None \<Rightarrow> None
      | Some (unregister_fails, m') \<Rightarrow>
          Some (if unregister_fails \<noteq> []
                then Status INTERNAL (error_message unregister_fails)
                else Success,
                m'\<lparr>register_mu := register_mu m' @ [Mu_unlock]\<rparr>))"

subsection \<open>Status report and address lookup\<close>

datatype region_detail =
    system_shared_memory string size_t
  | cuda_shared_memory int

record SharedMemoryRegionStatus =
  region_name :: string
  detail :: region_detail
  region_byte_size :: size_t

definition region_status :: "SharedMemoryInfo \<Rightarrow> SharedMemoryRegionStatus" where
  "region_status r =
     \<lparr>region_name = name r,
      detail = (if kind r = MEMORY_CPU then system_shared_memory (shm_key r) (offset r)
                else cuda_shared_memory (device_id r)),
      region_byte_size = byte_size r\<rparr>"

text \<open>The report is added to the entries \<open>shm_status\<close> already holds.\<close>

definition GetSharedMemoryStatus ::
  "SharedMemoryRegionStatus list \<Rightarrow> SharedMemoryManager
     \<Rightarrow> (Status \<times> SharedMemoryRegionStatus list) \<times> SharedMemoryManager" where
  "GetSharedMemoryStatus shm_status =
     lock_guard (\<lambda>m.
       ((Success, shm_status @ map (\<lambda>e. region_status (snd e)) (shared_memory_map m)), m))"

text \<open>
  \<open>shm_mapped_addr\<close> is the value the caller's pointer holds before the call; the second
  component of the result is what it holds afterwards. The function takes no lock.
\<close>

definition SharedMemoryAddress ::
  "string \<Rightarrow> size_t \<Rightarrow> size_t \<Rightarrow> addr \<Rightarrow> SharedMemoryManager
     \<Rightarrow> (Status \<times> addr) \<times> SharedMemoryManager" where
  "SharedMemoryAddress n off sz shm_mapped_addr m =
     (case map_of (shared_memory_map m) n of
        None \<Rightarrow>
          ((Status INTERNAL
              (''Unable to find shared memory region: '' @ apostrophe @ n @ apostrophe),
            shm_mapped_addr), m)
      | Some r \<Rightarrow>
          if kind r = MEMORY_CPU
          then ((Success, mapped_addr r + offset r + off), m)
          else ((Success, mapped_addr r + off), m))"

subsection \<open>The descriptor invariant\<close>




subsection \<open>Sample environments and managers\<close>

text \<open>
  \<open>env_ok\<close> is a world in which every call succeeds, except that shm_open refuses the empty
  name; \<open>env_close_fails\<close> and \<open>env_mmap_fails\<close> make one kind of call fail, and in
  \<open>env_empty_name\<close> shm_open opens every name, the empty one included. \<open>m_one\<close>, \<open>m_three\<close>
  and \<open>m_gx\<close> are the managers reached from the empty one by the registrations of
  \<open>m_one_reachable\<close>, \<open>m_three_reachable\<close> and \<open>m_gx_reachable\<close>.
\<close>

definition env_ok :: os_env where
  "env_ok =
     \<lparr>enable_gpu = True,
      os_shm_open = (\<lambda>calls key. if key = [] then - 1 else 3 + int (length calls)),
      os_mmap = (\<lambda>calls sz fd off. 4096),
      os_munmap = (\<lambda>calls a sz. 0),
      os_close = (\<lambda>calls fd. 0),
      cuda_open = (\<lambda>calls h. (0, 8192)),
      cuda_close = (\<lambda>calls a. 0),
      cudaGetErrorString = (\<lambda>err. ''unspecified launch failure'')\<rparr>"


definition env_mmap_fails :: os_env where
  "env_mmap_fails = env_ok\<lparr>os_mmap := (\<lambda>calls sz fd off. MAP_FAILED)\<rparr>"

definition env_empty_name :: os_env where
  "env_empty_name = env_ok\<lparr>os_shm_open := (\<lambda>calls key. 3 + int (length calls))\<rparr>"

definition m_empty :: SharedMemoryManager where
  "m_empty = \<lparr>shared_memory_map = [], os_calls = [], register_mu = []\<rparr>"

definition region_a :: SharedMemoryInfo where
  "region_a =
     \<lparr>name = ''a'', shm_key = ''/k'', offset = 0, byte_size = 8, shm_fd = 3,
      mapped_addr = 4096, kind = MEMORY_CPU, device_id = 0\<rparr>"

definition region_b :: SharedMemoryInfo where
  "region_b =
     \<lparr>name = ''b'', shm_key = ''/k'', offset = 16, byte_size = 8, shm_fd = 3,
      mapped_addr = 4096, kind = MEMORY_CPU, device_id = 0\<rparr>"

definition region_g :: SharedMemoryInfo where
  "region_g =
     \<lparr>name = ''g'', shm_key = [], offset = 0, byte_size = 64, shm_fd = - 1,
      mapped_addr = 8192, kind = MEMORY_GPU, device_id = 1\<rparr>"

definition m_one :: SharedMemoryManager where
  "m_one =
     \<lparr>shared_memory_map = [(''a'', region_a)],
      os_calls = [Shm_open ''/k'', Mmap 8 3 0],
      register_mu = [Mu_lock, Mu_unlock]\<rparr>"

definition m_three :: SharedMemoryManager where
  "m_three =
     \<lparr>shared_memory_map = [(''a'', region_a), (''b'', region_b), (''g'', region_g)],
      os_calls = [Shm_open ''/k'', Mmap 8 3 0, Mmap 8 3 16, CudaSetDevice 1,
                  CudaIpcOpenMemHandle [7]],
      register_mu = [Mu_lock, Mu_unlock, Mu_lock, Mu_unlock, Mu_lock, Mu_unlock]\<rparr>"

definition region_x :: SharedMemoryInfo where
  "region_x =
     \<lparr>name = ''x'', shm_key = [], offset = 0, byte_size = 8, shm_fd = 5,
      mapped_addr = 4096, kind = MEMORY_CPU, device_id = 0\<rparr>"

definition m_gx :: SharedMemoryManager where
  "m_gx =
     \<lparr>shared_memory_map = [(''g'', region_g), (''x'', region_x)],
      os_calls = [CudaSetDevice 1, CudaIpcOpenMemHandle [7], Shm_open [], Mmap 8 5 0],
      register_mu = [Mu_lock, Mu_unlock, Mu_lock, Mu_unlock]\<rparr>"

section \<open>Properties\<close>

subsection \<open>The sample managers are reachable\<close>

lemma m_one_reachable: "RegisterSharedMemory env_ok ''a'' ''/k'' 0 8 m_empty = (Success, m_one)"
  by (simp add: RegisterSharedMemory_def lock_guard_def acquire_fd_def OpenSharedMemoryRegion_def
      MapSharedMemory_def env_ok_def m_empty_def m_one_def region_a_def insert_region_def
      MAP_FAILED_def Success_def Let_def)

lemma m_three_reachable:
  "RegisterCudaSharedMemory env_ok ''g'' [7] 64 1
     (snd (RegisterSharedMemory env_ok ''b'' ''/k'' 16 8 m_one)) = (Success, m_three)"
  by (simp add: RegisterSharedMemory_def RegisterCudaSharedMemory_def lock_guard_def
      acquire_fd_def OpenCudaIPCRegion_def MapSharedMemory_def env_ok_def m_one_def m_three_def
      region_a_def region_b_def region_g_def insert_region_def MAP_FAILED_def Success_def
      cudaSuccess_def Let_def)

lemma m_gx_reachable:
  "RegisterSharedMemory env_empty_name ''x'' [] 0 8
     (snd (RegisterCudaSharedMemory env_empty_name ''g'' [7] 64 1 m_empty)) = (Success, m_gx)"
  by (simp add: RegisterSharedMemory_def RegisterCudaSharedMemory_def lock_guard_def
      acquire_fd_def OpenSharedMemoryRegion_def OpenCudaIPCRegion_def MapSharedMemory_def
      env_empty_name_def env_ok_def m_empty_def m_gx_def region_g_def region_x_def
      insert_region_def MAP_FAILED_def Success_def cudaSuccess_def Let_def)

subsection \<open>The unregistration helper\<close>

lemma last_one_scan_member:
  "e \<in> set tbl \<Longrightarrow> shm_key (snd e) = key \<Longrightarrow> \<not> last_one_scan tbl key"
  by (induction tbl) auto

lemma last_one_scan_present:
  "map_of tbl n = Some r \<Longrightarrow> \<not> last_one_scan tbl (shm_key r)"
  using last_one_scan_member [of "(n, r)" tbl "shm_key r"] by (simp add: map_of_SomeD)

lemma map_of_erase: "map_of (erase n tbl) n = None"
  by (induction tbl) (auto simp: erase_def)

lemma helper_absent:
  "map_of (shared_memory_map m) n = None \<Longrightarrow> UnregisterSharedMemoryHelper env n m = (Success, m)"
  by (simp add: UnregisterSharedMemoryHelper_def)

lemma helper_cpu:
  assumes "map_of (shared_memory_map m) n = Some r" and "kind r = MEMORY_CPU"
  shows "UnregisterSharedMemoryHelper env n m =
     (if os_munmap env (os_calls m) (mapped_addr r) (byte_size r) = - 1
      then (Status INTERNAL ''Unable to munmap shared memory region'',
            m\<lparr>os_calls := os_calls m @ [Munmap (mapped_addr r) (byte_size r)]\<rparr>)
      else (Success,
            m\<lparr>os_calls := os_calls m @ [Munmap (mapped_addr r) (byte_size r)],
              shared_memory_map := erase n (shared_memory_map m)\<rparr>))"
  using assms last_one_scan_present [OF assms(1)]
  by (simp add: UnregisterSharedMemoryHelper_def UnmapSharedMemory_def close_and_erase_def
      Let_def Success_def)

lemma helper_gpu:
  assumes "map_of (shared_memory_map m) n = Some r" and "kind r \<noteq> MEMORY_CPU"
  shows "UnregisterSharedMemoryHelper env n m =
     (if enable_gpu env then
        (if cuda_close env (os_calls m) (mapped_addr r) \<noteq> cudaSuccess
         then (Status INTERNAL
                 (''failed to close CUDA IPC handle: ''
                    @ cudaGetErrorString env (cuda_close env (os_calls m) (mapped_addr r))),
               m\<lparr>os_calls := os_calls m @ [CudaIpcCloseMemHandle (mapped_addr r)]\<rparr>)
         else (Success,
               m\<lparr>os_calls := os_calls m @ [CudaIpcCloseMemHandle (mapped_addr r)],
                 shared_memory_map := erase n (shared_memory_map m)\<rparr>))
      else (gpus_not_supported n, m))"
  using assms
  by (simp add: UnregisterSharedMemoryHelper_def Let_def)

text \<open>The helper either leaves the table as it is or erases the name.\<close>

lemma helper_table:
  "shared_memory_map (snd (UnregisterSharedMemoryHelper env n m)) = shared_memory_map m
   \<or> shared_memory_map (snd (UnregisterSharedMemoryHelper env n m)) = erase n (shared_memory_map m)"
proof (cases "map_of (shared_memory_map m) n")
  case None
  then show ?thesis by (simp add: helper_absent)
next
  case (Some r)
  show ?thesis
  proof (cases "kind r = MEMORY_CPU")
    case True
    show ?thesis by (simp add: helper_cpu [OF Some True])
  next
    case False
    show ?thesis by (simp add: helper_gpu [OF Some False])
  qed
qed

lemma helper_ok_erased:
  "IsOk (fst (UnregisterSharedMemoryHelper env n m)) \<Longrightarrow>
   map_of (shared_memory_map (snd (UnregisterSharedMemoryHelper env n m))) n = None"
proof (cases "map_of (shared_memory_map m) n")
  case None
  then show ?thesis by (simp add: helper_absent)
next
  case (Some r)
  assume ok: "IsOk (fst (UnregisterSharedMemoryHelper env n m))"
  show ?thesis
  proof (cases "kind r = MEMORY_CPU")
    case True
    from ok show ?thesis
      by (simp add: helper_cpu [OF Some True] map_of_erase split: if_splits)
  next
    case False
    from ok show ?thesis
      by (simp add: helper_gpu [OF Some False] map_of_erase gpus_not_supported_def
          split: if_splits)
  qed
qed

lemma helper_register_mu:
  "register_mu (snd (UnregisterSharedMemoryHelper env n m)) = register_mu m"
proof (cases "map_of (shared_memory_map m) n")
  case None
  then show ?thesis by (simp add: helper_absent)
next
  case (Some r)
  show ?thesis
  proof (cases "kind r = MEMORY_CPU")
    case True
    show ?thesis by (simp add: helper_cpu [OF Some True])
  next
    case False
    show ?thesis by (simp add: helper_gpu [OF Some False])
  qed
qed


text \<open>A loop that comes to its end has erased nothing, and every call in it has failed.\<close>

lemma unregister_all_loop_table:
  "unregister_all_loop env ns fails m = Some (fails', m') \<Longrightarrow>
   shared_memory_map m' = shared_memory_map m"
proof (induction ns arbitrary: fails m)
  case Nil
  then show ?case by simp
next
  case (Cons n ns)
  obtain st m1 where h: "UnregisterSharedMemoryHelper env n m = (st, m1)"
    by (cases "UnregisterSharedMemoryHelper env n m")
  from Cons.prems h have present: "map_of (shared_memory_map m1) n \<noteq> None"
    by (auto split: if_splits)
  from Cons.prems h present
  have rest: "unregister_all_loop env ns (if \<not> IsOk st then fails @ [n] else fails) m1
                = Some (fails', m')"
    by (auto split: if_splits)
  have "shared_memory_map m1 = shared_memory_map m"
    using helper_table [of env n m] h present by (auto simp: map_of_erase)
  with Cons.IH [OF rest] show ?case by simp
qed

lemma unregister_all_loop_fails:
  "unregister_all_loop env ns fails m = Some (fails', m') \<Longrightarrow>
   \<forall>n\<in>set ns. map_of (shared_memory_map m) n \<noteq> None \<Longrightarrow>
   fails' = fails @ ns"
proof (induction ns arbitrary: fails m)
  case Nil
  then show ?case by simp
next
  case (Cons n ns)
  obtain st m1 where h: "UnregisterSharedMemoryHelper env n m = (st, m1)"
    by (cases "UnregisterSharedMemoryHelper env n m")
  from Cons.prems(1) h have present: "map_of (shared_memory_map m1) n \<noteq> None"
    by (auto split: if_splits)
  from Cons.prems(1) h present
  have rest: "unregister_all_loop env ns (if \<not> IsOk st then fails @ [n] else fails) m1
                = Some (fails', m')"
    by (auto split: if_splits)
  have tbl: "shared_memory_map m1 = shared_memory_map m"
    using helper_table [of env n m] h present by (auto simp: map_of_erase)
  have "\<not> IsOk st"
  proof
    assume "IsOk st"
    with helper_ok_erased [of env n m] h present show False by simp
  qed
  with rest have rest': "unregister_all_loop env ns (fails @ [n]) m1 = Some (fails', m')"
    by simp
  from Cons.prems(2) tbl have "\<forall>n'\<in>set ns. map_of (shared_memory_map m1) n' \<noteq> None"
    by simp
  from Cons.IH [OF rest' this] show ?case by simp
qed

lemma UnregisterAllSharedMemory_table:
  assumes "UnregisterAllSharedMemory env m = Some (st, m')"
  shows "shared_memory_map m' = shared_memory_map m"
proof -
  from assms obtain fails m1 where
    l: "unregister_all_loop env (map fst (shared_memory_map m)) []
          (m\<lparr>register_mu := register_mu m @ [Mu_lock]\<rparr>) = Some (fails, m1)"
    and m': "m' = m1\<lparr>register_mu := register_mu m1 @ [Mu_unlock]\<rparr>"
    by (auto simp: UnregisterAllSharedMemory_def split: option.splits)
  from unregister_all_loop_table [OF l] m' show ?thesis by simp
qed

lemma UnregisterAllSharedMemory_defined:
  assumes "UnregisterAllSharedMemory env m = Some (st, m')"
  shows "shared_memory_map m' = shared_memory_map m
       \<and> st = (if shared_memory_map m = [] then Success
               else Status INTERNAL (error_message (map fst (shared_memory_map m))))"
proof -
  from assms obtain fails m1 where
    l: "unregister_all_loop env (map fst (shared_memory_map m)) []
          (m\<lparr>register_mu := register_mu m @ [Mu_lock]\<rparr>) = Some (fails, m1)"
    and st: "st = (if fails \<noteq> [] then Status INTERNAL (error_message fails) else Success)"
    by (auto simp: UnregisterAllSharedMemory_def split: option.splits)
  have "\<forall>n\<in>set (map fst (shared_memory_map m)).
          map_of (shared_memory_map (m\<lparr>register_mu := register_mu m @ [Mu_lock]\<rparr>)) n \<noteq> None"
    by (simp add: map_of_eq_None_iff)
  from unregister_all_loop_fails [OF l this] have "fails = map fst (shared_memory_map m)"
    by simp
  with st UnregisterAllSharedMemory_table [OF assms] show ?thesis by simp
qed

subsection \<open>The lock\<close>

lemma lock_guard_register_mu:
  assumes "\<And>m0. register_mu (snd (body m0)) = register_mu m0"
  shows "register_mu (snd (lock_guard body m)) = register_mu m @ [Mu_lock, Mu_unlock]"
proof -
  obtain res m' where b: "body (m\<lparr>register_mu := register_mu m @ [Mu_lock]\<rparr>) = (res, m')"
    by (cases "body (m\<lparr>register_mu := register_mu m @ [Mu_lock]\<rparr>)")
  from assms [of "m\<lparr>register_mu := register_mu m @ [Mu_lock]\<rparr>"] b
  have "register_mu m' = register_mu m @ [Mu_lock]" by simp
  with b show ?thesis by (simp add: lock_guard_def)
qed

lemma RegisterSharedMemory_register_mu:
  "register_mu (snd (RegisterSharedMemory env n key off sz m)) = register_mu m @ [Mu_lock, Mu_unlock]"
  unfolding RegisterSharedMemory_def
  by (rule lock_guard_register_mu) (simp split: prod.splits)

subsection \<open>The scan for a descriptor and the invariant\<close>

lemma acquire_fd_register_mu [simp]:
  "acquire_fd env key (m\<lparr>register_mu := x\<rparr>) = acquire_fd env key m"
  by (simp add: acquire_fd_def Let_def)

lemma find_shm_fd_none:
  "\<forall>e\<in>set tbl. shm_key (snd e) \<noteq> key \<Longrightarrow> find_shm_fd tbl key = - 1"
  by (induction tbl) auto


















lemma OpenSharedMemoryRegion_ok:
  assumes "OpenSharedMemoryRegion env key calls = (st, fd, calls1)" and "IsOk st"
  shows "fd = os_shm_open env calls key \<and> fd \<noteq> - 1"
proof (cases "os_shm_open env calls key = - 1")
  case True
  with assms(1) have "st = Status INTERNAL
      (''Unable to open shared memory region: '' @ apostrophe @ key @ apostrophe)"
    by (simp add: OpenSharedMemoryRegion_def Let_def)
  with assms(2) show ?thesis by simp
next
  case False
  with assms(1) have "fd = os_shm_open env calls key"
    by (simp add: OpenSharedMemoryRegion_def Let_def)
  with False show ?thesis by simp
qed


lemma acquire_fd_fd:
  assumes "acquire_fd env key m = (st, fd, calls1)" and "IsOk st"
  shows "fd \<noteq> - 1"
proof (cases "find_shm_fd (shared_memory_map m) key = - 1")
  case True
  with assms(1) have "OpenSharedMemoryRegion env key (os_calls m) = (st, fd, calls1)"
    by (simp add: acquire_fd_def)
  from OpenSharedMemoryRegion_ok [OF this assms(2)] show ?thesis by simp
next
  case False
  with assms(1) show ?thesis by (simp add: acquire_fd_def Let_def)
qed

lemma MapSharedMemory_eq:
  "MapSharedMemory env fd off sz calls =
     (if os_mmap env calls sz fd off = MAP_FAILED
      then Status INTERNAL ''Unable to process address space'' else Success,
      os_mmap env calls sz fd off, calls @ [Mmap sz fd off])"
  by (simp add: MapSharedMemory_def Let_def)

text \<open>RegisterSharedMemory, read off branch by branch.\<close>

lemma RegisterSharedMemory_present:
  assumes "map_of (shared_memory_map m) n \<noteq> None"
  shows "fst (RegisterSharedMemory env n key off sz m) = already_registered n"
    and "shared_memory_map (snd (RegisterSharedMemory env n key off sz m)) = shared_memory_map m"
    and "os_calls (snd (RegisterSharedMemory env n key off sz m)) = os_calls m"
  using assms by (simp_all add: RegisterSharedMemory_def lock_guard_def)

lemma RegisterSharedMemory_open_failed:
  assumes "map_of (shared_memory_map m) n = None"
    and "acquire_fd env key m = (st, fd, calls1)" and "\<not> IsOk st"
  shows "fst (RegisterSharedMemory env n key off sz m) = st"
    and "shared_memory_map (snd (RegisterSharedMemory env n key off sz m)) = shared_memory_map m"
    and "os_calls (snd (RegisterSharedMemory env n key off sz m)) = calls1"
  using assms by (simp_all add: RegisterSharedMemory_def lock_guard_def)

lemma RegisterSharedMemory_map_failed:
  assumes "map_of (shared_memory_map m) n = None"
    and "acquire_fd env key m = (st, fd, calls1)" and "IsOk st"
    and "os_mmap env calls1 sz fd off = MAP_FAILED"
  shows "fst (RegisterSharedMemory env n key off sz m) = failed_to_register n"
    and "shared_memory_map (snd (RegisterSharedMemory env n key off sz m)) = shared_memory_map m"
    and "os_calls (snd (RegisterSharedMemory env n key off sz m)) = calls1 @ [Mmap sz fd off]"
  using assms
  by (simp_all add: RegisterSharedMemory_def lock_guard_def MapSharedMemory_eq)

lemma RegisterSharedMemory_success:
  assumes "map_of (shared_memory_map m) n = None"
    and "acquire_fd env key m = (st, fd, calls1)" and "IsOk st"
    and "os_mmap env calls1 sz fd off \<noteq> MAP_FAILED"
  shows "fst (RegisterSharedMemory env n key off sz m) = Success"
    and "shared_memory_map (snd (RegisterSharedMemory env n key off sz m)) =
           shared_memory_map m @
             [(n, \<lparr>name = n, shm_key = key, offset = off, byte_size = sz, shm_fd = fd,
                   mapped_addr = os_mmap env calls1 sz fd off, kind = MEMORY_CPU,
                   device_id = 0\<rparr>)]"
    and "os_calls (snd (RegisterSharedMemory env n key off sz m)) = calls1 @ [Mmap sz fd off]"
  using assms
  by (simp_all add: RegisterSharedMemory_def lock_guard_def MapSharedMemory_eq Success_def
      insert_region_def)







section \<open>The claims\<close>

subsection \<open>C1: closing the descriptor with the last record of a key\<close>

text \<open>
  C1 says that unregistering a CPU region unmaps its window and, when it was the last
  record with its key, also closes the descriptor. The scan that decides "last one" runs
  while the record is still in the table, so it always finds the record itself
  (\<open>last_one_scan_present\<close>) and the descriptor is never closed. Here \<open>a\<close> is the only
  region of \<open>m_one\<close>, registered on descriptor 3: unregistering it succeeds, empties the
  table and calls munmap, and no \<open>Close 3\<close> is issued.
\<close>

theorem unregister_last_region_never_closes:
  "UnregisterSharedMemory env_ok ''a'' m_one =
     (Success,
      \<lparr>shared_memory_map = [],
       os_calls = [Shm_open ''/k'', Mmap 8 3 0, Munmap 4096 8],
       register_mu = [Mu_lock, Mu_unlock, Mu_lock, Mu_unlock]\<rparr>)"
  by (simp add: UnregisterSharedMemory_def UnregisterSharedMemoryHelper_def lock_guard_def
      close_and_erase_def UnmapSharedMemory_def env_ok_def m_one_def region_a_def erase_def
      Success_def Let_def)

subsection \<open>C2: failures of munmap and close\<close>


subsection \<open>C3: a failed mapping leaves the table alone\<close>

text \<open>
  C3: when the mapping step of a host registration fails (the name is free, a descriptor
  was found or opened, and mmap returns \<open>MAP_FAILED\<close>), RegisterSharedMemory returns
  INVALID_ARG and the table is unchanged. The registration is atomic on the table: either
  it succeeds and the table gains exactly one CPU record for the name, with a descriptor
  and a mapped address, or it fails and the table is unchanged.
\<close>

theorem register_mapping_failure_atomic:
  "(map_of (shared_memory_map m) n = None \<and> acquire_fd env key m = (st, fd, calls1) \<and> IsOk st
      \<and> os_mmap env calls1 sz fd off = MAP_FAILED \<longrightarrow>
      Code (fst (RegisterSharedMemory env n key off sz m)) = INVALID_ARG
      \<and> shared_memory_map (snd (RegisterSharedMemory env n key off sz m)) = shared_memory_map m)
   \<and> ((IsOk (fst (RegisterSharedMemory env n key off sz m))
        \<and> (\<exists>d a. d \<noteq> - 1 \<and> a \<noteq> MAP_FAILED
              \<and> shared_memory_map (snd (RegisterSharedMemory env n key off sz m)) =
                  shared_memory_map m @
                    [(n, \<lparr>name = n, shm_key = key, offset = off, byte_size = sz, shm_fd = d,
                          mapped_addr = a, kind = MEMORY_CPU, device_id = 0\<rparr>)]))
      \<or> (\<not> IsOk (fst (RegisterSharedMemory env n key off sz m))
          \<and> shared_memory_map (snd (RegisterSharedMemory env n key off sz m))
              = shared_memory_map m))"
proof
  show "map_of (shared_memory_map m) n = None \<and> acquire_fd env key m = (st, fd, calls1) \<and> IsOk st
      \<and> os_mmap env calls1 sz fd off = MAP_FAILED \<longrightarrow>
      Code (fst (RegisterSharedMemory env n key off sz m)) = INVALID_ARG
      \<and> shared_memory_map (snd (RegisterSharedMemory env n key off sz m)) = shared_memory_map m"
    by (simp add: RegisterSharedMemory_map_failed failed_to_register_def)
next
  let ?R = "RegisterSharedMemory env n key off sz m"
  obtain st' fd' calls' where acq: "acquire_fd env key m = (st', fd', calls')"
    by (cases "acquire_fd env key m")
  show "(IsOk (fst ?R)
        \<and> (\<exists>d a. d \<noteq> - 1 \<and> a \<noteq> MAP_FAILED
              \<and> shared_memory_map (snd ?R) =
                  shared_memory_map m @
                    [(n, \<lparr>name = n, shm_key = key, offset = off, byte_size = sz, shm_fd = d,
                          mapped_addr = a, kind = MEMORY_CPU, device_id = 0\<rparr>)]))
      \<or> (\<not> IsOk (fst ?R) \<and> shared_memory_map (snd ?R) = shared_memory_map m)"
  proof (cases "map_of (shared_memory_map m) n = None")
    case False
    then show ?thesis
      by (simp add: RegisterSharedMemory_present already_registered_def)
  next
    case absent: True
    show ?thesis
    proof (cases "IsOk st'")
      case False
      with absent acq show ?thesis
        by (simp add: RegisterSharedMemory_open_failed [where st = st'])
    next
      case ok: True
      show ?thesis
      proof (cases "os_mmap env calls' sz fd' off = MAP_FAILED")
        case True
        with absent acq ok show ?thesis
          by (simp add: RegisterSharedMemory_map_failed [where st = st']
              failed_to_register_def)
      next
        case False
        note s = RegisterSharedMemory_success [OF absent acq ok False]
        from acquire_fd_fd [OF acq ok] False s show ?thesis
          by (auto simp: Success_def)
      qed
    qed
  qed
qed

theorem register_mapping_failure_atomic_witness:
  "map_of (shared_memory_map m_empty) ''a'' = None
   \<and> acquire_fd env_mmap_fails ''/k'' m_empty = (Success, 3, [Shm_open ''/k''])
   \<and> IsOk Success
   \<and> os_mmap env_mmap_fails [Shm_open ''/k''] 8 3 0 = MAP_FAILED
   \<and> Code (fst (RegisterSharedMemory env_mmap_fails ''a'' ''/k'' 0 8 m_empty)) = INVALID_ARG
   \<and> shared_memory_map (snd (RegisterSharedMemory env_mmap_fails ''a'' ''/k'' 0 8 m_empty))
       = shared_memory_map m_empty"
proof -
  have h1: "map_of (shared_memory_map m_empty) ''a'' = None" by (simp add: m_empty_def)
  have h2: "acquire_fd env_mmap_fails ''/k'' m_empty = (Success, 3, [Shm_open ''/k''])"
    by (simp add: acquire_fd_def OpenSharedMemoryRegion_def env_mmap_fails_def env_ok_def
        m_empty_def Let_def)
  have h3: "IsOk Success" by (simp add: Success_def)
  have h4: "os_mmap env_mmap_fails [Shm_open ''/k''] 8 3 0 = MAP_FAILED"
    by (simp add: env_mmap_fails_def)
  from register_mapping_failure_atomic
         [where m = m_empty and n = "''a''" and env = env_mmap_fails and key = "''/k''"
            and st = Success and fd = 3 and ?calls1.0 = "[Shm_open ''/k'']" and sz = 8
            and off = 0]
    h1 h2 h3 h4
  show ?thesis by simp
qed

subsection \<open>C4: registering a name twice\<close>

text \<open>
  C4: when the name is already in the table, a host registration and a device registration
  both return ALREADY_EXISTS, call nothing outside the manager, and leave the table as it
  was.
\<close>

theorem register_existing_name_rejected:
  assumes "map_of (shared_memory_map m) n = Some r"
  shows "fst (RegisterSharedMemory env n key off sz m) = already_registered n
       \<and> shared_memory_map (snd (RegisterSharedMemory env n key off sz m)) = shared_memory_map m
       \<and> os_calls (snd (RegisterSharedMemory env n key off sz m)) = os_calls m
       \<and> fst (RegisterCudaSharedMemory env n h dsz dev m) = already_registered n
       \<and> shared_memory_map (snd (RegisterCudaSharedMemory env n h dsz dev m)) = shared_memory_map m
       \<and> os_calls (snd (RegisterCudaSharedMemory env n h dsz dev m)) = os_calls m
       \<and> Code (already_registered n) = ALREADY_EXISTS"
  using assms
  by (simp add: RegisterSharedMemory_def RegisterCudaSharedMemory_def lock_guard_def
      already_registered_def)

theorem register_existing_name_rejected_witness:
  "map_of (shared_memory_map m_one) ''a'' = Some region_a
   \<and> fst (RegisterSharedMemory env_ok ''a'' ''/other'' 0 8 m_one) = already_registered ''a''
   \<and> shared_memory_map (snd (RegisterSharedMemory env_ok ''a'' ''/other'' 0 8 m_one))
       = shared_memory_map m_one
   \<and> os_calls (snd (RegisterSharedMemory env_ok ''a'' ''/other'' 0 8 m_one)) = os_calls m_one
   \<and> fst (RegisterCudaSharedMemory env_ok ''a'' [7] 64 1 m_one) = already_registered ''a''
   \<and> os_calls (snd (RegisterCudaSharedMemory env_ok ''a'' [7] 64 1 m_one)) = os_calls m_one"
proof -
  have h1: "map_of (shared_memory_map m_one) ''a'' = Some region_a" by (simp add: m_one_def)
  from register_existing_name_rejected [OF h1, of env_ok "''/other''" 0 8 "[7]" 64 1] h1
  show ?thesis by simp
qed

subsection \<open>C5: unregistering every region\<close>

text \<open>
  C5 says that UnregisterAll tries every registered name, goes on after a failure, reports
  the names that failed, and leaves the table empty when all went well. The loop walks the
  table while the helper erases from it: the first unregistration that succeeds erases the
  entry under the loop's iterator, and the iteration has no defined continuation. Here
  \<open>m_one\<close> holds the single region \<open>a\<close>, whose munmap succeeds. (Whenever the loop does come
  to its end, nothing was erased: \<open>UnregisterAllSharedMemory_defined\<close>.)
\<close>

theorem unregister_all_erases_under_iterator:
  "UnregisterAllSharedMemory env_ok m_one = None"
  by (simp add: UnregisterAllSharedMemory_def UnregisterSharedMemoryHelper_def
      close_and_erase_def UnmapSharedMemory_def env_ok_def m_one_def region_a_def erase_def
      Success_def Let_def)

subsection \<open>C6: the address of a region\<close>

text \<open>
  C6: for an unknown name SharedMemoryAddress returns INTERNAL, writes no address and leaves
  the manager as it is; for a CPU record it yields \<open>mapped_addr + offset + off\<close>, for a GPU
  record \<open>mapped_addr + off\<close>; \<open>byte_size\<close> plays no part, whatever the record's size.
\<close>

theorem shared_memory_address_result:
  "(map_of (shared_memory_map m) n = None \<longrightarrow>
      SharedMemoryAddress n off sz p m =
        ((Status INTERNAL
            (''Unable to find shared memory region: '' @ apostrophe @ n @ apostrophe), p), m))
   \<and> (\<forall>r. map_of (shared_memory_map m) n = Some r \<and> kind r = MEMORY_CPU \<longrightarrow>
        SharedMemoryAddress n off sz p m = ((Success, mapped_addr r + offset r + off), m))
   \<and> (\<forall>r. map_of (shared_memory_map m) n = Some r \<and> kind r = MEMORY_GPU \<longrightarrow>
        SharedMemoryAddress n off sz p m = ((Success, mapped_addr r + off), m))
   \<and> (\<forall>sz'. SharedMemoryAddress n off sz' p m = SharedMemoryAddress n off sz p m)"
  by (simp add: SharedMemoryAddress_def)

theorem shared_memory_address_result_witness:
  "map_of (shared_memory_map m_three) ''zz'' = None
   \<and> Code (fst (fst (SharedMemoryAddress ''zz'' 4 100 0 m_three))) = INTERNAL
   \<and> snd (SharedMemoryAddress ''zz'' 4 100 0 m_three) = m_three
   \<and> map_of (shared_memory_map m_three) ''b'' = Some region_b \<and> kind region_b = MEMORY_CPU
   \<and> SharedMemoryAddress ''b'' 4 100 0 m_three = ((Success, 4116), m_three)
   \<and> map_of (shared_memory_map m_three) ''g'' = Some region_g \<and> kind region_g = MEMORY_GPU
   \<and> SharedMemoryAddress ''g'' 4 100 0 m_three = ((Success, 8196), m_three)"
proof -
  have z: "map_of (shared_memory_map m_three) ''zz'' = None" by (simp add: m_three_def)
  have b: "map_of (shared_memory_map m_three) ''b'' = Some region_b \<and> kind region_b = MEMORY_CPU"
    by (simp add: m_three_def region_b_def)
  have g: "map_of (shared_memory_map m_three) ''g'' = Some region_g \<and> kind region_g = MEMORY_GPU"
    by (simp add: m_three_def region_g_def)
  from shared_memory_address_result [of m_three "''zz''" 4 100 0] z
  have 1: "Code (fst (fst (SharedMemoryAddress ''zz'' 4 100 0 m_three))) = INTERNAL
           \<and> snd (SharedMemoryAddress ''zz'' 4 100 0 m_three) = m_three" by simp
  from shared_memory_address_result [of m_three "''b''" 4 100 0] b
  have 2: "SharedMemoryAddress ''b'' 4 100 0 m_three = ((Success, 4116), m_three)"
    by (simp add: region_b_def)
  from shared_memory_address_result [of m_three "''g''" 4 100 0] g
  have 3: "SharedMemoryAddress ''g'' 4 100 0 m_three = ((Success, 8196), m_three)"
    by (simp add: region_g_def)
  from z b g 1 2 3 show ?thesis by simp
qed

subsection \<open>C7: one descriptor per key\<close>




subsection \<open>C8: unregistering an absent name\<close>

text \<open>
  C8: unregistering a name that is not in the table returns success, leaves the table as it
  was and calls nothing outside the manager.
\<close>

theorem unregister_absent_noop:
  assumes "map_of (shared_memory_map m) n = None"
  shows "fst (UnregisterSharedMemory env n m) = Success
       \<and> shared_memory_map (snd (UnregisterSharedMemory env n m)) = shared_memory_map m
       \<and> os_calls (snd (UnregisterSharedMemory env n m)) = os_calls m"
  using assms
  by (simp add: UnregisterSharedMemory_def lock_guard_def helper_absent)

theorem unregister_absent_noop_witness:
  "map_of (shared_memory_map m_one) ''zz'' = None
   \<and> fst (UnregisterSharedMemory env_ok ''zz'' m_one) = Success
   \<and> shared_memory_map (snd (UnregisterSharedMemory env_ok ''zz'' m_one)) = shared_memory_map m_one
   \<and> os_calls (snd (UnregisterSharedMemory env_ok ''zz'' m_one)) = os_calls m_one"
proof -
  have h: "map_of (shared_memory_map m_one) ''zz'' = None" by (simp add: m_one_def)
  from unregister_absent_noop [OF h, of env_ok] h show ?thesis by simp
qed

subsection \<open>C9: the lock\<close>

text \<open>
  C9 says that every public operation, the address lookup included, takes the lock on the
  table. SharedMemoryAddress reads the table and never touches the mutex, while the status
  report, registration and unregistration each lock and unlock it once.
\<close>

theorem shared_memory_address_takes_no_lock:
  "register_mu (snd (SharedMemoryAddress n off sz p m)) = register_mu m
   \<and> register_mu (snd (GetSharedMemoryStatus shm_status m)) = register_mu m @ [Mu_lock, Mu_unlock]
   \<and> register_mu (snd (RegisterSharedMemory env n key off sz m)) = register_mu m @ [Mu_lock, Mu_unlock]
   \<and> register_mu (snd (UnregisterSharedMemory env n m)) = register_mu m @ [Mu_lock, Mu_unlock]"
proof -
  have "register_mu (snd (SharedMemoryAddress n off sz p m)) = register_mu m"
    by (simp add: SharedMemoryAddress_def split: option.splits)
  moreover have "register_mu (snd (GetSharedMemoryStatus shm_status m))
                   = register_mu m @ [Mu_lock, Mu_unlock]"
    by (simp add: GetSharedMemoryStatus_def lock_guard_def)
  moreover have "register_mu (snd (UnregisterSharedMemory env n m))
                   = register_mu m @ [Mu_lock, Mu_unlock]"
    unfolding UnregisterSharedMemory_def
    by (rule lock_guard_register_mu) (rule helper_register_mu)
  ultimately show ?thesis
    by (simp add: RegisterSharedMemory_register_mu)
qed

subsection \<open>C10: the descriptor opened before a failed mapping\<close>

text \<open>
  C10: when no record has the requested key, shm_open succeeds and mmap fails, the
  registration returns its error with the table unchanged, and the calls it made are the
  shm_open and the mmap alone: the descriptor just opened is not closed.
\<close>

theorem register_failed_mapping_leaves_descriptor:
  assumes "map_of (shared_memory_map m) n = None"
    and "\<forall>e\<in>set (shared_memory_map m). shm_key (snd e) \<noteq> key"
    and "os_shm_open env (os_calls m) key = fd" and "fd \<noteq> - 1"
    and "os_mmap env (os_calls m @ [Shm_open key]) sz fd off = MAP_FAILED"
  shows "fst (RegisterSharedMemory env n key off sz m) = failed_to_register n
       \<and> shared_memory_map (snd (RegisterSharedMemory env n key off sz m)) = shared_memory_map m
       \<and> os_calls (snd (RegisterSharedMemory env n key off sz m))
           = os_calls m @ [Shm_open key, Mmap sz fd off]"
proof -
  from assms(2) have "find_shm_fd (shared_memory_map m) key = - 1"
    by (rule find_shm_fd_none)
  with assms(3,4) have acq: "acquire_fd env key m = (Success, fd, os_calls m @ [Shm_open key])"
    by (auto simp: acquire_fd_def OpenSharedMemoryRegion_def Let_def)
  have ok: "IsOk Success" by (simp add: Success_def)
  from RegisterSharedMemory_map_failed [OF assms(1) acq ok assms(5)] show ?thesis by simp
qed

theorem register_failed_mapping_leaves_descriptor_witness:
  "map_of (shared_memory_map m_three) ''c'' = None
   \<and> ''/other'' \<notin> set (map (\<lambda>e. shm_key (snd e)) (shared_memory_map m_three))
   \<and> os_shm_open env_mmap_fails (os_calls m_three) ''/other'' = 8
   \<and> os_mmap env_mmap_fails (os_calls m_three @ [Shm_open ''/other'']) 8 8 0 = MAP_FAILED
   \<and> fst (RegisterSharedMemory env_mmap_fails ''c'' ''/other'' 0 8 m_three) = failed_to_register ''c''
   \<and> shared_memory_map (snd (RegisterSharedMemory env_mmap_fails ''c'' ''/other'' 0 8 m_three))
       = shared_memory_map m_three
   \<and> os_calls (snd (RegisterSharedMemory env_mmap_fails ''c'' ''/other'' 0 8 m_three))
       = os_calls m_three @ [Shm_open ''/other'', Mmap 8 8 0]"
proof -
  have h1: "map_of (shared_memory_map m_three) ''c'' = None" by (simp add: m_three_def)
  have h2: "\<forall>e\<in>set (shared_memory_map m_three). shm_key (snd e) \<noteq> ''/other''"
    by (simp add: m_three_def region_a_def region_b_def region_g_def)
  have h3: "os_shm_open env_mmap_fails (os_calls m_three) ''/other'' = 8"
    by (simp add: env_mmap_fails_def env_ok_def m_three_def)
  have h4: "(8::int) \<noteq> - 1" by simp
  have h5: "os_mmap env_mmap_fails (os_calls m_three @ [Shm_open ''/other'']) 8 8 0 = MAP_FAILED"
    by (simp add: env_mmap_fails_def)
  have h6: "''/other'' \<notin> set (map (\<lambda>e. shm_key (snd e)) (shared_memory_map m_three))"
    by (simp add: m_three_def region_a_def region_b_def region_g_def)
  from register_failed_mapping_leaves_descriptor [OF h1 h2 h3 h4 h5] h1 h3 h5 h6
  show ?thesis by simp
qed

end
